theory Spec2Isabelle
  imports Main "HOL-Library.Word" "HOL-Library.Sublist" "HOL-Library.Multiset"
begin

section \<open>JavaScript values used by the journal entry screen\<close>

text \<open>
  A JavaScript string is a sequence of UTF-16 code units, and \<open>===\<close>, \<open>includes\<close> and
  \<open>trim\<close> work on code units. \<open>str\<close> embeds an ASCII literal of the source.
\<close>

type_synonym jsstring = "16 word list"

definition str :: "string \<Rightarrow> jsstring" where
  "str s = map of_char s"

text \<open>
  \<open>String.prototype.trim\<close> removes WhiteSpace and LineTerminator code points from both
  ends (ECMA-262): TAB, VT, FF, SP, NBSP, ZWNBSP, the Unicode space separators, and
  LF, CR, LS, PS.
\<close>

definition isWhiteSpace :: "16 word \<Rightarrow> bool" where
  "isWhiteSpace c \<longleftrightarrow>
     c = 0x0009 \<or> c = 0x000B \<or> c = 0x000C \<or> c = 0x0020 \<or> c = 0x00A0 \<or> c = 0xFEFF \<or>
     c = 0x1680 \<or> (0x2000 \<le> c \<and> c \<le> 0x200A) \<or> c = 0x202F \<or> c = 0x205F \<or>
     c = 0x3000 \<or> c = 0x000A \<or> c = 0x000D \<or> c = 0x2028 \<or> c = 0x2029"

definition trim :: "jsstring \<Rightarrow> jsstring" where
  "trim s = rev (dropWhile isWhiteSpace (rev (dropWhile isWhiteSpace s)))"

text \<open>
  The route parameter \<open>id\<close> is a number or a string; \<open>route.params?.id ?? null\<close> is
  \<open>None\<close> when it is missing. \<open>if (entryId)\<close> tests truthiness: \<open>null\<close>, \<open>0\<close> and
  the empty string are falsy.
\<close>

datatype jsid = IdNum int | IdStr jsstring

fun truthy :: "jsid option \<Rightarrow> bool" where
  "truthy None = False"
| "truthy (Some (IdNum n)) = (n \<noteq> 0)"
| "truthy (Some (IdStr s)) = (s \<noteq> [])"

section \<open>Component state and effects\<close>

text \<open>
  A \<open>Date\<close> holds a time value in milliseconds or is an Invalid Date, which is what
  \<open>new Date(string)\<close> gives for a text it cannot read. \<open>Date.prototype.toISOString\<close>
  throws a RangeError on an Invalid Date; the text it gives for a time value and the
  reading of a text by \<open>new Date(string)\<close> are parameters of the functions that call
  them.
\<close>

datatype jsdate = ValidDate int | InvalidDate

text \<open>
  A value that is thrown: the RangeError of \<open>toISOString\<close>, or whatever the storage
  collaborator rejects with.
\<close>

datatype thrown = RangeError | Reason jsstring

definition date_toISOString :: "(int \<Rightarrow> jsstring) \<Rightarrow> jsdate \<Rightarrow> thrown + jsstring" where
  "date_toISOString toISOString d =
     (case d of InvalidDate \<Rightarrow> Inl RangeError | ValidDate t \<Rightarrow> Inr (toISOString t))"

text \<open>The \<open>useState\<close> cells of \<open>JournalEntryScreen\<close> together with \<open>entryId\<close>.\<close>

record editor =
  date :: jsdate
  title :: jsstring
  body :: jsstring
  tags :: "jsstring list"
  tagModalVisible :: bool
  showDatePicker :: bool
  entryId :: "jsid option"
  loading :: bool
  isKeyboardOpen :: bool

text \<open>The object literal handed to \<open>updateJournalEntry\<close> (with \<open>id\<close>) or \<open>createJournalEntry\<close> (without).\<close>

record entry_args =
  arg_id :: "jsid option"
  arg_date :: jsstring
  arg_title :: jsstring
  arg_body :: jsstring
  arg_tags :: "jsstring list"

text \<open>What \<open>readJournalEntry\<close> resolves to: the tags are stored as JSON text.\<close>

record stored_entry =
  e_date :: jsstring
  e_title :: jsstring
  e_body :: jsstring
  e_tags :: jsstring

text \<open>Everything the screen does to the world outside its own state, in order.\<close>

datatype effect =
    ReadJournalEntry jsid
  | UpdateJournalEntry entry_args
  | CreateJournalEntry entry_args
  | Alert jsstring
  | Navigate jsstring
  | ConsoleError jsstring thrown

text \<open>How the storage collaborator answers an awaited call: it resolves, or rejects with a value.\<close>

datatype outcome = Resolves | Rejects thrown

text \<open>
  A block of statements performs effects and then completes normally, throws, or
  leaves the function through \<open>return\<close>.
\<close>

datatype abrupt = Throw thrown | Return

type_synonym comp = "effect list \<times> (abrupt + unit)"

definition emit :: "effect \<Rightarrow> comp" where
  "emit e = ([e], Inr ())"

definition await :: "effect \<Rightarrow> outcome \<Rightarrow> comp" where
  "await call db = ([call], case db of Resolves \<Rightarrow> Inr () | Rejects r \<Rightarrow> Inl (Throw r))"

definition throw :: "thrown \<Rightarrow> comp" where
  "throw x = ([], Inl (Throw x))"

definition skip :: comp where
  "skip = ([], Inr ())"

definition return :: comp where
  "return = ([], Inl Return)"

definition seq :: "comp \<Rightarrow> comp \<Rightarrow> comp" where
  "seq m k = (case m of
                (es, Inl a) \<Rightarrow> (es, Inl a)
              | (es, Inr _) \<Rightarrow> (case k of (es', r) \<Rightarrow> (es @ es', r)))"

text \<open>The state on the first render (lines 21-30); \<open>now\<close> is \<open>new Date()\<close>.\<close>

definition initial :: "int \<Rightarrow> jsid option \<Rightarrow> editor" where
  "initial now route_id =
     \<lparr>date = ValidDate now, title = [], body = [], tags = [], tagModalVisible = False,
      showDatePicker = False, entryId = route_id, loading = True, isKeyboardOpen = False\<rparr>"

section \<open>Tags\<close>

text \<open>
  \<open>addTag\<close> (lines 112-124). The updater given to \<open>setTags\<close> looks the untrimmed \<open>tag\<close>
  up in the previous tags and appends the trimmed one.
\<close>

definition addTag_updater :: "jsstring \<Rightarrow> jsstring list \<Rightarrow> jsstring list \<times> effect list" where
  "addTag_updater tag prevTags =
     (if tag \<notin> set prevTags then (prevTags @ [trim tag], [])
      else (prevTags, [Alert (str ''Tag already exists'')]))"

definition addTag :: "jsstring \<Rightarrow> editor \<Rightarrow> editor \<times> effect list" where
  "addTag tag st =
     (let (ts, es) = (if trim tag \<noteq> [] then addTag_updater tag (tags st) else (tags st, []))
      in (st\<lparr>tags := ts, tagModalVisible := False\<rparr>, es))"

text \<open>\<open>deleteTag\<close> (lines 126-130).\<close>

definition deleteTag :: "jsstring \<Rightarrow> editor \<Rightarrow> editor" where
  "deleteTag tag st = st\<lparr>tags := filter (\<lambda>t. t \<noteq> tag) (tags st)\<rparr>"

section \<open>Saving\<close>

text \<open>
  The \<open>try\<close> block of \<open>onSave\<close> (lines 82-105) and the handler (lines 106-108). The
  object literal of a call is evaluated first: \<open>date.toISOString()\<close> may throw, and then
  the collaborator is not called. \<open>onSave\<close> calls no state setter, so the state it
  returns is the one it was given; its last component is the value the function throws
  to its caller, if any.
\<close>

definition save_args :: "(int \<Rightarrow> jsstring) \<Rightarrow> jsid option \<Rightarrow> editor \<Rightarrow> thrown + entry_args" where
  "save_args toISOString i st =
     (case date_toISOString toISOString (date st) of
        Inl x \<Rightarrow> Inl x
      | Inr d \<Rightarrow> Inr \<lparr>arg_id = i, arg_date = d, arg_title = title st,
                       arg_body = body st, arg_tags = tags st\<rparr>)"

definition await_call :: "(entry_args \<Rightarrow> effect) \<Rightarrow> thrown + entry_args \<Rightarrow> outcome \<Rightarrow> comp" where
  "await_call operation args db =
     (case args of Inl x \<Rightarrow> throw x | Inr a \<Rightarrow> await (operation a) db)"

definition onSave_try :: "(int \<Rightarrow> jsstring) \<Rightarrow> outcome \<Rightarrow> editor \<Rightarrow> comp" where
  "onSave_try toISOString db st =
     seq (if truthy (entryId st) then
            await_call UpdateJournalEntry (save_args toISOString (entryId st) st) db
          else
            seq (if trim (body st) = [] then
                   seq (emit (Alert (str ''Please enter a journal entry''))) return
                 else skip)
                (await_call CreateJournalEntry (save_args toISOString None st) db))
         (emit (Navigate (str ''JournalScreen'')))"

definition onSave :: "(int \<Rightarrow> jsstring) \<Rightarrow> outcome \<Rightarrow> editor \<Rightarrow> editor \<times> effect list \<times> thrown option" where
  "onSave toISOString db st =
     (case onSave_try toISOString db st of
        (es, Inl (Throw r)) \<Rightarrow> (st, es @ [ConsoleError (str ''Failed to save journal entry:'') r], None)
      | (es, Inl Return) \<Rightarrow> (st, es, None)
      | (es, Inr _) \<Rightarrow> (st, es, None))"

section \<open>The stored tag text\<close>

text \<open>
  \<open>JSON.parse\<close> on the texts that denote an array of strings (ECMA-404 grammar: the
  four JSON white space characters between tokens; in a string every code unit from
  0x20 on except the quote 0x22 and the backslash 0x5C, the eight short escapes and
  four-digit hexadecimal escapes). The result is \<open>None\<close> for every other text: there
  \<open>JSON.parse\<close> throws a SyntaxError or yields a value that is not an array of strings.
\<close>

definition isJSONWhiteSpace :: "16 word \<Rightarrow> bool" where
  "isJSONWhiteSpace c \<longleftrightarrow> c = 0x0009 \<or> c = 0x000A \<or> c = 0x000D \<or> c = 0x0020"

definition hexValue :: "16 word \<Rightarrow> 16 word option" where
  "hexValue c =
     (if 0x30 \<le> c \<and> c \<le> 0x39 then Some (c - 0x30)
      else if 0x41 \<le> c \<and> c \<le> 0x46 then Some (c - 0x37)
      else if 0x61 \<le> c \<and> c \<le> 0x66 then Some (c - 0x57)
      else None)"

definition hex4Value :: "16 word \<Rightarrow> 16 word \<Rightarrow> 16 word \<Rightarrow> 16 word \<Rightarrow> 16 word option" where
  "hex4Value a b c d =
     (case (hexValue a, hexValue b, hexValue c, hexValue d) of
        (Some x, Some y, Some z, Some w) \<Rightarrow> Some (((x * 16 + y) * 16 + z) * 16 + w)
      | _ \<Rightarrow> None)"

definition singleEscape :: "16 word \<Rightarrow> 16 word option" where
  "singleEscape c =
     (if c = 0x22 then Some 0x22
      else if c = 0x5C then Some 0x5C
      else if c = 0x2F then Some 0x2F
      else if c = 0x62 then Some 0x08
      else if c = 0x66 then Some 0x0C
      else if c = 0x6E then Some 0x0A
      else if c = 0x72 then Some 0x0D
      else if c = 0x74 then Some 0x09
      else None)"

fun consTo :: "16 word \<Rightarrow> (jsstring \<times> jsstring) option \<Rightarrow> (jsstring \<times> jsstring) option" where
  "consTo c None = None"
| "consTo c (Some (s, rest)) = Some (c # s, rest)"

fun parseChars :: "jsstring \<Rightarrow> (jsstring \<times> jsstring) option" where
  "parseChars [] = None"
| "parseChars (c # cs) =
     (if c = 0x22 then Some ([], cs)
      else if c = 0x5C then
        (case cs of
           [] \<Rightarrow> None
         | e # r \<Rightarrow>
             if e = 0x75 then
               (case r of
                  h1 # h2 # h3 # h4 # r' \<Rightarrow>
                    (case hex4Value h1 h2 h3 h4 of
                       None \<Rightarrow> None
                     | Some u \<Rightarrow> consTo u (parseChars r'))
                | _ \<Rightarrow> None)
             else
               (case singleEscape e of
                  None \<Rightarrow> None
                | Some u \<Rightarrow> consTo u (parseChars r)))
      else if c < 0x20 then None
      else consTo c (parseChars cs))"

lemma consTo_Some: "consTo c p = Some (x, r) \<longleftrightarrow> (\<exists>s. p = Some (s, r) \<and> x = c # s)"
  by (cases p) auto

lemma parseChars_shorter: "parseChars s = Some (x, r) \<Longrightarrow> length r < length s"
proof (induction s arbitrary: x r rule: parseChars.induct)
  case 1
  then show ?case by simp
next
  case (2 c cs)
  then show ?case
    by (fastforce simp: consTo_Some split: if_splits list.splits option.splits)
qed

lemma length_dropWhile_eq: "dropWhile P s = a # t \<Longrightarrow> length t < length s"
proof -
  assume h: "dropWhile P s = a # t"
  have "length (dropWhile P s) \<le> length s" by (rule length_dropWhile_le)
  with h show ?thesis by simp
qed

function parseElements :: "jsstring \<Rightarrow> (jsstring list \<times> jsstring) option" where
  "parseElements s =
     (case dropWhile isJSONWhiteSpace s of
        [] \<Rightarrow> None
      | q # cs \<Rightarrow>
          if q \<noteq> 0x22 then None
          else
            (case parseChars cs of
               None \<Rightarrow> None
             | Some (x, r) \<Rightarrow>
                 (case dropWhile isJSONWhiteSpace r of
                    [] \<Rightarrow> None
                  | d # r' \<Rightarrow>
                      if d = 0x5D then Some ([x], r')
                      else if d = 0x2C then
                        (case parseElements r' of
                           None \<Rightarrow> None
                         | Some (xs, r'') \<Rightarrow> Some (x # xs, r''))
                      else None)))"
  by pat_completeness auto

termination
proof (relation "measure length", goal_cases)
  case 1
  then show ?case by simp
next
  case (2 s q cs p x r d r')
  have a: "length cs < length s" using 2(1) by (rule length_dropWhile_eq)
  have "parseChars cs = Some (x, r)" using 2(3) 2(4) by simp
  then have b: "length r < length cs" by (rule parseChars_shorter)
  have c: "length r' < length r" using 2(5) by (rule length_dropWhile_eq)
  from a b c show ?case by simp
qed

declare parseElements.simps [simp del]

definition JSON_parse :: "jsstring \<Rightarrow> jsstring list option" where
  "JSON_parse text =
     (case dropWhile isJSONWhiteSpace text of
        [] \<Rightarrow> None
      | b # s \<Rightarrow>
          if b \<noteq> 0x5B then None
          else
            (case dropWhile isJSONWhiteSpace s of
               [] \<Rightarrow> None
             | c # s' \<Rightarrow>
                 (case (if c = 0x5D then Some ([], s') else parseElements s) of
                    None \<Rightarrow> None
                  | Some (xs, r) \<Rightarrow>
                      if dropWhile isJSONWhiteSpace r = [] then Some xs else None)))"

text \<open>
  \<open>JSON.stringify\<close> on an array of strings, the JSON text encoding of the array:
  \<open>QuoteJSONString\<close> of each element (ECMA-262: the short escapes, four-digit escapes in
  lower-case hexadecimal for control characters and lone surrogates, everything else
  as it is), separated by commas, in brackets.
\<close>

definition hexDigit :: "16 word \<Rightarrow> 16 word" where
  "hexDigit d = (if d < 10 then 0x30 + d else 0x57 + d)"

definition unicodeEscape :: "16 word \<Rightarrow> jsstring" where
  "unicodeEscape c =
     [0x5C, 0x75, hexDigit (c div 0x1000 mod 16), hexDigit (c div 0x100 mod 16),
      hexDigit (c div 0x10 mod 16), hexDigit (c mod 16)]"

definition isLeadingSurrogate :: "16 word \<Rightarrow> bool" where
  "isLeadingSurrogate c \<longleftrightarrow> 0xD800 \<le> c \<and> c \<le> 0xDBFF"

definition isTrailingSurrogate :: "16 word \<Rightarrow> bool" where
  "isTrailingSurrogate c \<longleftrightarrow> 0xDC00 \<le> c \<and> c \<le> 0xDFFF"

definition quoteUnit :: "16 word \<Rightarrow> jsstring" where
  "quoteUnit c =
     (if c = 0x08 then [0x5C, 0x62]
      else if c = 0x09 then [0x5C, 0x74]
      else if c = 0x0A then [0x5C, 0x6E]
      else if c = 0x0C then [0x5C, 0x66]
      else if c = 0x0D then [0x5C, 0x72]
      else if c = 0x22 then [0x5C, 0x22]
      else if c = 0x5C then [0x5C, 0x5C]
      else if c < 0x20 \<or> isLeadingSurrogate c \<or> isTrailingSurrogate c then unicodeEscape c
      else [c])"

fun quoteChars :: "jsstring \<Rightarrow> jsstring" where
  "quoteChars [] = []"
| "quoteChars [c] = quoteUnit c"
| "quoteChars (c # d # cs) =
     (if isLeadingSurrogate c \<and> isTrailingSurrogate d then c # d # quoteChars cs
      else quoteUnit c @ quoteChars (d # cs))"

definition QuoteJSONString :: "jsstring \<Rightarrow> jsstring" where
  "QuoteJSONString s = 0x22 # quoteChars s @ [0x22]"

fun joinComma :: "jsstring list \<Rightarrow> jsstring" where
  "joinComma [] = []"
| "joinComma [x] = x"
| "joinComma (x # y # ys) = x @ 0x2C # joinComma (y # ys)"

definition JSON_stringify :: "jsstring list \<Rightarrow> jsstring" where
  "JSON_stringify xs = 0x5B # joinComma (map QuoteJSONString xs) @ [0x5D]"

section \<open>Loading\<close>

text \<open>
  The effect of lines 44-60. \<open>loadEntry\<close> runs up to its \<open>await\<close> (lines 48-49), which
  hands control back to the effect; the effect then calls \<open>setLoading(false)\<close> (line 59).
  \<open>loadEntry_resume\<close> is the rest of \<open>loadEntry\<close> (lines 50-55), run when the read has
  resolved with a record or with nothing; \<open>newDate\<close> is \<open>new Date(string)\<close>. Its result
  is \<open>None\<close> when the stored tag text is not the text of an array of strings.
\<close>

definition loadEntry_start :: "jsid \<Rightarrow> editor \<Rightarrow> editor \<times> effect list" where
  "loadEntry_start i st = (st\<lparr>loading := True\<rparr>, [ReadJournalEntry i])"

definition load_effect :: "editor \<Rightarrow> editor \<times> effect list" where
  "load_effect st =
     (let (st1, es) =
            (case entryId st of
               None \<Rightarrow> (st, [])
             | Some i \<Rightarrow> if truthy (Some i) then loadEntry_start i st else (st, []))
      in (st1\<lparr>loading := False\<rparr>, es))"

definition loadEntry_resume :: "(jsstring \<Rightarrow> jsdate) \<Rightarrow> stored_entry option \<Rightarrow> editor \<Rightarrow> editor option" where
  "loadEntry_resume newDate entry st =
     (case entry of
        None \<Rightarrow> Some st
      | Some e \<Rightarrow>
          (case JSON_parse (e_tags e) of
             None \<Rightarrow> None
           | Some ts \<Rightarrow>
               Some (st\<lparr>date := newDate (e_date e), title := e_title e,
                        body := e_body e, tags := ts\<rparr>)))"

text \<open>Which effects are writes to the storage collaborator.\<close>

fun isWrite :: "effect \<Rightarrow> bool" where
  "isWrite (UpdateJournalEntry a) = True"
| "isWrite (CreateJournalEntry a) = True"
| "isWrite e = False"

section \<open>Round trip of the tag text\<close>

lemma nibble_cases: "(d::16 word) < 16 \<Longrightarrow> d \<in> {0,1,2,3,4,5,6,7,8,9,10,11,12,13,14,15}"
  by (simp add: word_less_nat_alt word_unat_eq_iff) arith

lemma hexValue_hexDigit: "d < 16 \<Longrightarrow> hexValue (hexDigit d) = Some d"
proof -
  assume "d < 16"
  then have "d \<in> {0,1,2,3,4,5,6,7,8,9,10,11,12,13,14,15}" by (rule nibble_cases)
  then show ?thesis by (elim insertE emptyE) (simp_all add: hexValue_def hexDigit_def)
qed

lemma nibble_lt: "(x::16 word) mod 16 < 16"
  by (simp add: word_less_nat_alt unat_mod)

lemma nat_nibbles:
  fixes n :: nat
  assumes "n < 65536"
  shows "((n div 4096 mod 16 * 16 + n div 256 mod 16) * 16 + n div 16 mod 16) * 16 + n mod 16 = n"
proof -
  define m1 where "m1 = n div 16"
  define m2 where "m2 = m1 div 16"
  define m3 where "m3 = m2 div 16"
  have d2: "n div 256 = m2" by (simp add: m1_def m2_def div_mult2_eq)
  have d3: "n div 4096 = m3" by (simp add: m1_def m2_def m3_def div_mult2_eq)
  have "m3 < 16" using assms d3 by (simp add: less_mult_imp_div_less)
  then have e3: "m3 mod 16 = m3" by simp
  have e2: "m2 = m3 * 16 + m2 mod 16" by (simp add: m3_def)
  have e1: "m1 = m2 * 16 + m1 mod 16" by (simp add: m2_def)
  have e0: "n = m1 * 16 + n mod 16" by (simp add: m1_def)
  have "((m3 mod 16 * 16 + m2 mod 16) * 16 + m1 mod 16) * 16 + n mod 16 = n"
    using e0 e1 e2 e3 by simp
  then show ?thesis by (simp add: d2 d3 m1_def)
qed

lemma nibbles_join: "(((c div 0x1000 mod 16) * 16 + (c div 0x100 mod 16)) * 16 + (c div 0x10 mod 16)) * 16 + (c mod 16) = (c::16 word)"
proof -
  define x y z w where "x = c div 0x1000 mod 16" and "y = c div 0x100 mod 16"
    and "z = c div 0x10 mod 16" and "w = c mod 16"
  have b: "unat c < 65536" using unsigned_less[of c, where ?'a=nat] by simp
  have ux: "unat x = unat c div 4096 mod 16" by (simp add: x_def unat_div unat_mod)
  have uy: "unat y = unat c div 256 mod 16" by (simp add: y_def unat_div unat_mod)
  have uz: "unat z = unat c div 16 mod 16" by (simp add: z_def unat_div unat_mod)
  have uw: "unat w = unat c mod 16" by (simp add: w_def unat_div unat_mod)
  have "((unat x * 16 + unat y) * 16 + unat z) * 16 + unat w = unat c"
    unfolding ux uy uz uw by (rule nat_nibbles[OF b])
  then have "(of_nat (((unat x * 16 + unat y) * 16 + unat z) * 16 + unat w) :: 16 word) = of_nat (unat c)"
    by simp
  then have "((x * 16 + y) * 16 + z) * 16 + w = c" by simp
  then show ?thesis by (simp only: x_def y_def z_def w_def)
qed

lemma hex4Value_digits:
  "hex4Value (hexDigit (c div 0x1000 mod 16)) (hexDigit (c div 0x100 mod 16))
     (hexDigit (c div 0x10 mod 16)) (hexDigit (c mod 16)) = Some c"
  by (simp only: hex4Value_def hexValue_hexDigit[OF nibble_lt] prod.case option.case nibbles_join)

lemma parseChars_unicodeEscape:
  "parseChars (unicodeEscape c @ rest) = consTo c (parseChars rest)"
  by (simp add: unicodeEscape_def hex4Value_digits)

lemma parseChars_literal:
  "c \<noteq> 0x22 \<Longrightarrow> c \<noteq> 0x5C \<Longrightarrow> \<not> c < 0x20 \<Longrightarrow> parseChars (c # rest) = consTo c (parseChars rest)"
  by simp

lemma parseChars_quoteUnit:
  "parseChars (quoteUnit c @ rest) = consTo c (parseChars rest)"
  by (simp add: quoteUnit_def parseChars_unicodeEscape singleEscape_def del: parseChars.simps)
     (simp add: singleEscape_def)

lemma surrogate_literal:
  "isLeadingSurrogate c \<or> isTrailingSurrogate c \<Longrightarrow> c \<noteq> 0x22 \<and> c \<noteq> 0x5C \<and> \<not> c < 0x20"
  by (auto simp: isLeadingSurrogate_def isTrailingSurrogate_def word_le_nat_alt word_less_nat_alt)

lemma parseChars_quoteChars:
  "parseChars (quoteChars s @ 0x22 # rest) = Some (s, rest)"
proof (induction s rule: quoteChars.induct)
  case 1
  show ?case by simp
next
  case (2 c)
  show ?case by (simp add: parseChars_quoteUnit del: parseChars.simps) simp
next
  case (3 c d cs)
  show ?case
  proof (cases "isLeadingSurrogate c \<and> isTrailingSurrogate d")
    case True
    then have c: "c \<noteq> 0x22 \<and> c \<noteq> 0x5C \<and> \<not> c < 0x20" and d: "d \<noteq> 0x22 \<and> d \<noteq> 0x5C \<and> \<not> d < 0x20"
      using surrogate_literal by blast+
    from True 3 have ih: "parseChars (quoteChars cs @ 0x22 # rest) = Some (cs, rest)" by simp
    have "parseChars (c # d # quoteChars cs @ 0x22 # rest) = consTo c (consTo d (parseChars (quoteChars cs @ 0x22 # rest)))"
      using c d by (simp add: parseChars_literal del: parseChars.simps)
    with True ih show ?thesis by simp
  next
    case False
    with 3 have ih: "parseChars (quoteChars (d # cs) @ 0x22 # rest) = Some (d # cs, rest)" by simp
    from False have "quoteChars (c # d # cs) = quoteUnit c @ quoteChars (d # cs)" by auto
    then show ?thesis by (simp add: parseChars_quoteUnit ih del: parseChars.simps quoteChars.simps)
  qed
qed

lemma parseElements_quoted:
  "parseElements (QuoteJSONString x @ d # r) =
     (if d = 0x5D then Some ([x], r)
      else if d = 0x2C then (case parseElements r of None \<Rightarrow> None | Some (xs, r'') \<Rightarrow> Some (x # xs, r''))
      else None)" if "\<not> isJSONWhiteSpace d"
  using that
  by (subst parseElements.simps)
     (simp add: QuoteJSONString_def parseChars_quoteChars isJSONWhiteSpace_def del: parseChars.simps)

lemma not_ws_comma: "\<not> isJSONWhiteSpace 0x2C"
  by (simp add: isJSONWhiteSpace_def)

lemma parseElements_joinComma:
  "parseElements (joinComma (map QuoteJSONString (x # xs)) @ 0x5D # rest) = Some (x # xs, rest)"
proof (induction xs arbitrary: x)
  case Nil
  show ?case by (simp add: parseElements_quoted isJSONWhiteSpace_def)
next
  case (Cons y ys)
  have "parseElements (QuoteJSONString x @ 0x2C # (joinComma (map QuoteJSONString (y # ys)) @ 0x5D # rest))
      = Some (x # y # ys, rest)"
    by (simp add: parseElements_quoted[OF not_ws_comma] Cons.IH del: joinComma.simps list.map)
  then show ?case by simp
qed

lemma JSON_parse_stringify: "JSON_parse (JSON_stringify xs) = Some xs"
proof (cases xs)
  case Nil
  then show ?thesis by (simp add: JSON_parse_def JSON_stringify_def isJSONWhiteSpace_def)
next
  case (Cons x ys)
  obtain t where t: "joinComma (map QuoteJSONString (x # ys)) = 0x22 # t"
    by (cases ys) (simp_all add: QuoteJSONString_def)
  have pe: "parseElements (0x22 # t @ [0x5D]) = Some (x # ys, [])"
    using parseElements_joinComma[of x ys "[]"] by (simp only: t append_Cons)
  have "JSON_parse (0x5B # joinComma (map QuoteJSONString (x # ys)) @ [0x5D]) = Some (x # ys)"
    by (simp only: t append_Cons) (simp add: JSON_parse_def isJSONWhiteSpace_def pe)
  with Cons show ?thesis by (simp only: JSON_stringify_def)
qed

lemma JSON_stringify_a_b: \<open>JSON_stringify [str ''a'', str ''b''] = str ''["a","b"]''\<close>
  by (simp add: JSON_stringify_def QuoteJSONString_def quoteUnit_def isLeadingSurrogate_def
      isTrailingSurrogate_def str_def)

section \<open>What the operations compute\<close>

lemma trim_str_x: "trim (str ''  x  '') = str ''x''"
  by (simp add: trim_def str_def isWhiteSpace_def)

lemma tags_addTag:
  "tags (fst (addTag tag st)) =
     (if trim tag = [] \<or> tag \<in> set (tags st) then tags st else tags st @ [trim tag])"
  by (simp add: addTag_def addTag_updater_def)

lemma snd_addTag:
  "snd (addTag tag st) =
     (if trim tag \<noteq> [] \<and> tag \<in> set (tags st) then [Alert (str ''Tag already exists'')] else [])"
  by (simp add: addTag_def addTag_updater_def)

text \<open>A tag that is given already trimmed never produces a duplicate.\<close>

lemma addTag_distinct_trimmed:
  "distinct (tags st) \<Longrightarrow> trim tag = tag \<Longrightarrow> distinct (tags (fst (addTag tag st)))"
  by (simp add: tags_addTag)

lemma onSave_update:
  "truthy (entryId st) \<Longrightarrow> date st = ValidDate t \<Longrightarrow>
   onSave toISOString db st =
     (st, UpdateJournalEntry \<lparr>arg_id = entryId st, arg_date = toISOString t, arg_title = title st,
                              arg_body = body st, arg_tags = tags st\<rparr> #
          (case db of Resolves \<Rightarrow> [Navigate (str ''JournalScreen'')]
                    | Rejects r \<Rightarrow> [ConsoleError (str ''Failed to save journal entry:'') r]), None)"
  by (cases db)
     (simp_all add: onSave_def onSave_try_def seq_def emit_def await_def await_call_def
        save_args_def date_toISOString_def)

lemma onSave_blank:
  "\<not> truthy (entryId st) \<Longrightarrow> trim (body st) = [] \<Longrightarrow>
   onSave toISOString db st = (st, [Alert (str ''Please enter a journal entry'')], None)"
  by (simp add: onSave_def onSave_try_def seq_def emit_def return_def)

lemma onSave_create:
  "\<not> truthy (entryId st) \<Longrightarrow> trim (body st) \<noteq> [] \<Longrightarrow> date st = ValidDate t \<Longrightarrow>
   onSave toISOString db st =
     (st, CreateJournalEntry \<lparr>arg_id = None, arg_date = toISOString t, arg_title = title st,
                              arg_body = body st, arg_tags = tags st\<rparr> #
          (case db of Resolves \<Rightarrow> [Navigate (str ''JournalScreen'')]
                    | Rejects r \<Rightarrow> [ConsoleError (str ''Failed to save journal entry:'') r]), None)"
  by (cases db)
     (simp_all add: onSave_def onSave_try_def seq_def emit_def await_def await_call_def
        skip_def save_args_def date_toISOString_def)

text \<open>
  With an Invalid Date no call reaches the collaborator: the RangeError of
  \<open>toISOString\<close> is caught and logged.
\<close>

lemma onSave_invalid_date:
  "truthy (entryId st) \<or> trim (body st) \<noteq> [] \<Longrightarrow> date st = InvalidDate \<Longrightarrow>
   onSave toISOString db st =
     (st, [ConsoleError (str ''Failed to save journal entry:'') RangeError], None)"
  by (auto simp: onSave_def onSave_try_def seq_def emit_def throw_def await_call_def
        skip_def save_args_def date_toISOString_def)

text \<open>Without an identifier the effect of lines 44-60 only clears \<open>loading\<close>.\<close>

lemma load_effect_no_id:
  "load_effect (initial now None) = ((initial now None)\<lparr>loading := False\<rparr>, [])"
  by (simp add: load_effect_def initial_def)

section \<open>The tag set\<close>

text \<open>
  C1. The tag sequence is meant to hold no value twice. On the blank draft, adding
  \<open>"x"\<close> and then \<open>" x"\<close> leaves the sequence \<open>["x", "x"]\<close>: the second call looks
  the untrimmed \<open>" x"\<close> up, does not find it, and appends its trimmed form.
\<close>

theorem addTag_duplicates:
  "tags (fst (addTag (str '' x'') (fst (addTag (str ''x'') (fst (load_effect (initial 0 None)))))))
     = [str ''x'', str ''x''] \<and>
   \<not> distinct (tags (fst (addTag (str '' x'') (fst (addTag (str ''x'') (fst (load_effect (initial 0 None))))))))"
  by (simp add: tags_addTag load_effect_def initial_def trim_def str_def isWhiteSpace_def)

text \<open>
  C2. An input whose trimmed form is already a tag is meant to be rejected with a
  notification. With the tags \<open>["x"]\<close> and the input \<open>" x"\<close> the trimmed form \<open>"x"\<close> is
  present, yet \<open>addTag\<close> appends it again and raises no alert.
\<close>

theorem addTag_untrimmed_lookup:
  "trim (str '' x'') \<in> set [str ''x''] \<and>
   addTag (str '' x'') ((initial 0 None)\<lparr>tags := [str ''x'']\<rparr>) =
     ((initial 0 None)\<lparr>tags := [str ''x'', str ''x''], tagModalVisible := False\<rparr>, [])"
  by (simp add: addTag_def addTag_updater_def initial_def trim_def str_def isWhiteSpace_def)

text \<open>
  C8. Every tag that \<open>addTag\<close> puts into the sequence is the trimmed input: the new
  sequence holds nothing but the old tags and the trimmed input; an input that is not
  blank and not yet in the sequence is appended in trimmed form; and an input whose
  trimmed form is empty leaves the sequence as it is (only the tag dialog closes).
\<close>

theorem addTag_trims:
  "set (tags (fst (addTag tag st))) \<subseteq> insert (trim tag) (set (tags st)) \<and>
   (trim tag \<noteq> [] \<longrightarrow> tag \<notin> set (tags st) \<longrightarrow>
      tags (fst (addTag tag st)) = tags st @ [trim tag]) \<and>
   (trim tag = [] \<longrightarrow> addTag tag st = (st\<lparr>tagModalVisible := False\<rparr>, []))"
  by (auto simp: addTag_def addTag_updater_def)

theorem addTag_trims_witness:
  "trim (str ''  x  '') \<noteq> [] \<and> str ''  x  '' \<notin> set (tags (initial 0 None)) \<and>
   tags (fst (addTag (str ''  x  '') (initial 0 None))) = [str ''x''] \<and>
   trim (str ''   '') = [] \<and>
   tags (fst (addTag (str ''   '') ((initial 0 None)\<lparr>tags := [str ''x'']\<rparr>))) = [str ''x'']"
proof -
  have a: "trim (str ''  x  '') = str ''x''" by (rule trim_str_x)
  have b: "trim (str ''   '') = []" by (simp add: trim_def str_def isWhiteSpace_def)
  have c: "tags (initial 0 None) = []" by (simp add: initial_def)
  have d: "str ''x'' \<noteq> []" by (simp add: str_def)
  show ?thesis
    using addTag_trims [of "str ''  x  ''" "initial 0 None"]
      addTag_trims [of "str ''   ''" "(initial 0 None)\<lparr>tags := [str ''x'']\<rparr>"]
    by (simp add: a b c d)
qed

text \<open>
  C9. \<open>deleteTag\<close> removes every occurrence of the value: the value is no longer in the
  sequence, the remaining tags are a subsequence of the old ones (their order is kept),
  every other value occurs as often as before, and when the value was not there the
  state is returned unchanged. There is no error result.
\<close>

theorem deleteTag_removes_all:
  "tag \<notin> set (tags (deleteTag tag st)) \<and>
   subseq (tags (deleteTag tag st)) (tags st) \<and>
   (\<forall>t. t \<noteq> tag \<longrightarrow> count_list (tags (deleteTag tag st)) t = count_list (tags st) t) \<and>
   (tag \<notin> set (tags st) \<longrightarrow> deleteTag tag st = st)"
proof -
  have c: "count_list (filter (\<lambda>t. t \<noteq> tag) xs) t = count_list xs t" if "t \<noteq> tag" for t xs
    using that by (induction xs) auto
  have i: "filter (\<lambda>t. t \<noteq> tag) (tags st) = tags st" if "tag \<notin> set (tags st)"
    using that by (auto simp: filter_id_conv)
  show ?thesis
    by (simp add: deleteTag_def c i)
qed

theorem deleteTag_removes_all_witness:
  "str ''c'' \<notin> set (tags ((initial 0 None)\<lparr>tags := [str ''a'', str ''b'', str ''a'']\<rparr>)) \<and>
   str ''a'' \<noteq> str ''c'' \<and>
   count_list (tags (deleteTag (str ''c'') ((initial 0 None)\<lparr>tags := [str ''a'', str ''b'', str ''a'']\<rparr>))) (str ''a'') = 2 \<and>
   deleteTag (str ''c'') ((initial 0 None)\<lparr>tags := [str ''a'', str ''b'', str ''a'']\<rparr>) =
     (initial 0 None)\<lparr>tags := [str ''a'', str ''b'', str ''a'']\<rparr> \<and>
   tags (deleteTag (str ''a'') ((initial 0 None)\<lparr>tags := [str ''a'', str ''b'', str ''a'']\<rparr>)) = [str ''b'']"
proof -
  let ?st = "(initial 0 None)\<lparr>tags := [str ''a'', str ''b'', str ''a'']\<rparr>"
  have a: "str ''c'' \<notin> set (tags ?st)" by (simp add: str_def)
  have b: "str ''a'' \<noteq> str ''c''" by (simp add: str_def)
  have c: "count_list (tags ?st) (str ''a'') = 2" by (simp add: str_def)
  have d: "tags (deleteTag (str ''a'') ?st) = [str ''b'']" by (simp add: deleteTag_def str_def)
  show ?thesis
    using a b c d deleteTag_removes_all [of "str ''c''" ?st]
    by simp
qed

section \<open>Saving a draft\<close>

text \<open>
  C3. For a draft without an identifier whose body is empty or only white space,
  \<open>onSave\<close> alerts the user and does nothing else: no create (and no other) call
  reaches the storage collaborator, nothing is thrown, and the state is the one it
  was given. This holds whatever the collaborator would have answered.
\<close>

theorem onSave_blank_body:
  "entryId st = None \<Longrightarrow> trim (body st) = [] \<Longrightarrow>
   onSave toISOString db st = (st, [Alert (str ''Please enter a journal entry'')], None)"
  by (simp add: onSave_blank)

theorem onSave_blank_body_witness:
  "entryId ((initial 0 None)\<lparr>body := str ''   ''\<rparr>) = None \<and>
   trim (body ((initial 0 None)\<lparr>body := str ''   ''\<rparr>)) = [] \<and>
   onSave (\<lambda>t. []) Resolves ((initial 0 None)\<lparr>body := str ''   ''\<rparr>) =
     ((initial 0 None)\<lparr>body := str ''   ''\<rparr>, [Alert (str ''Please enter a journal entry'')], None)"
proof -
  have a: "entryId ((initial 0 None)\<lparr>body := str ''   ''\<rparr>) = None"
    by (simp add: initial_def)
  have b: "trim (body ((initial 0 None)\<lparr>body := str ''   ''\<rparr>)) = []"
    by (simp add: initial_def trim_def str_def isWhiteSpace_def)
  show ?thesis using a b onSave_blank_body [OF a b, of "\<lambda>t. []" Resolves] by simp
qed

text \<open>
  C4, as stated, fails in two ways. For an identifier that JavaScript counts as false:
  with the identifier \<open>0\<close> present and the body \<open>"hello"\<close>, \<open>if (entryId)\<close> takes the
  create branch. And for a draft whose date is an Invalid Date (left there by
  \<open>setDate(new Date(entry.date))\<close> when the stored text is not a date): with the
  identifier \<open>1\<close>, \<open>date.toISOString()\<close> throws before the update is called, and the
  save only logs the RangeError.
\<close>

theorem onSave_falsy_id_creates:
  "entryId ((initial 0 (Some (IdNum 0)))\<lparr>body := str ''hello''\<rparr>) = Some (IdNum 0) \<and>
   snd (onSave (\<lambda>t. str ''1970-01-01T00:00:00.000Z'') Resolves
          ((initial 0 (Some (IdNum 0)))\<lparr>body := str ''hello''\<rparr>)) =
     ([CreateJournalEntry \<lparr>arg_id = None, arg_date = str ''1970-01-01T00:00:00.000Z'',
                            arg_title = [], arg_body = str ''hello'', arg_tags = []\<rparr>,
       Navigate (str ''JournalScreen'')], None) \<and>
   entryId ((initial 0 (Some (IdNum 1)))\<lparr>date := InvalidDate\<rparr>) = Some (IdNum 1) \<and>
   snd (onSave (\<lambda>t. str ''1970-01-01T00:00:00.000Z'') Resolves
          ((initial 0 (Some (IdNum 1)))\<lparr>date := InvalidDate\<rparr>)) =
     ([ConsoleError (str ''Failed to save journal entry:'') RangeError], None)"
  by (simp add: onSave_def onSave_try_def seq_def emit_def await_def await_call_def throw_def
      skip_def save_args_def date_toISOString_def initial_def trim_def str_def isWhiteSpace_def)

text \<open>
  C4, amended. For a draft whose identifier passes the test \<open>if (entryId)\<close> (a number
  other than 0 or a string other than the empty one) and whose date is a valid date,
  \<open>onSave\<close> makes exactly one call to the storage collaborator: \<open>updateJournalEntry\<close>
  with the identifier, the date in ISO text form, the title, the body and the tags of
  the draft. It never calls create and never looks at the body, which may be blank.
  The call is followed by the navigation when it resolves and by the log entry when it
  rejects.
\<close>

theorem onSave_with_id:
  "truthy (entryId st) \<Longrightarrow> date st = ValidDate t \<Longrightarrow>
   onSave toISOString db st =
     (st,
      UpdateJournalEntry \<lparr>arg_id = entryId st, arg_date = toISOString t,
                          arg_title = title st, arg_body = body st, arg_tags = tags st\<rparr> #
        (case db of Resolves \<Rightarrow> [Navigate (str ''JournalScreen'')]
                  | Rejects r \<Rightarrow> [ConsoleError (str ''Failed to save journal entry:'') r]),
      None)"
  by (rule onSave_update)

theorem onSave_with_id_witness:
  "truthy (entryId (initial 0 (Some (IdNum 1)))) \<and>
   date (initial 0 (Some (IdNum 1))) = ValidDate 0 \<and>
   onSave (\<lambda>t. str ''1970-01-01T00:00:00.000Z'') Resolves (initial 0 (Some (IdNum 1))) =
     (initial 0 (Some (IdNum 1)),
      [UpdateJournalEntry \<lparr>arg_id = Some (IdNum 1), arg_date = str ''1970-01-01T00:00:00.000Z'',
                           arg_title = [], arg_body = [], arg_tags = []\<rparr>,
       Navigate (str ''JournalScreen'')], None)"
proof -
  have a: "truthy (entryId (initial 0 (Some (IdNum 1))))" by (simp add: initial_def)
  have b: "date (initial 0 (Some (IdNum 1))) = ValidDate 0" by (simp add: initial_def)
  show ?thesis
    using a b onSave_with_id [OF a b, of "\<lambda>t. str ''1970-01-01T00:00:00.000Z''" Resolves]
    by (simp add: initial_def)
qed

text \<open>
  C6. When the collaborator rejects the create or update call of a save, \<open>onSave\<close>
  still returns normally (nothing is thrown to its caller), the state is untouched,
  the rejection reason is logged with \<open>console.error\<close>, the collaborator was called
  exactly once (no retry), and there is no navigation.
\<close>

theorem onSave_collaborator_failure:
  assumes "onSave toISOString (Rejects r) st = (st', es, thrown)"
    and "\<exists>e \<in> set es. isWrite e"
  shows "thrown = None \<and> st' = st \<and>
         ConsoleError (str ''Failed to save journal entry:'') r \<in> set es \<and>
         length (filter isWrite es) = 1 \<and>
         (\<forall>dest. Navigate dest \<notin> set es)"
proof (cases "date st")
  case InvalidDate
  show ?thesis
  proof (cases "truthy (entryId st) \<or> trim (body st) \<noteq> []")
    case True
    from assms onSave_invalid_date [OF True InvalidDate, of toISOString "Rejects r"]
    show ?thesis by auto
  next
    case False
    with assms show ?thesis by (auto simp: onSave_blank)
  qed
next
  case (ValidDate t)
  show ?thesis
  proof (cases "truthy (entryId st)")
    case True
    from assms(1) onSave_update [OF True ValidDate, of toISOString "Rejects r"]
    show ?thesis by auto
  next
    case False
    show ?thesis
    proof (cases "trim (body st) = []")
      case True
      with False assms show ?thesis by (auto simp: onSave_blank)
    next
      case nonblank: False
      from assms(1) onSave_create [OF False nonblank ValidDate, of toISOString "Rejects r"]
      show ?thesis by auto
    qed
  qed
qed

theorem onSave_collaborator_failure_witness:
  "onSave (\<lambda>t. []) (Rejects (Reason (str ''disk full''))) (initial 0 (Some (IdNum 1))) =
     (initial 0 (Some (IdNum 1)),
      [UpdateJournalEntry \<lparr>arg_id = Some (IdNum 1), arg_date = [], arg_title = [],
                           arg_body = [], arg_tags = []\<rparr>,
       ConsoleError (str ''Failed to save journal entry:'') (Reason (str ''disk full''))], None) \<and>
   (\<exists>e \<in> set [UpdateJournalEntry \<lparr>arg_id = Some (IdNum 1), arg_date = [], arg_title = [],
                                   arg_body = [], arg_tags = []\<rparr>,
                ConsoleError (str ''Failed to save journal entry:'') (Reason (str ''disk full''))]. isWrite e) \<and>
   length (filter isWrite
             [UpdateJournalEntry \<lparr>arg_id = Some (IdNum 1), arg_date = [], arg_title = [],
                                  arg_body = [], arg_tags = []\<rparr>,
              ConsoleError (str ''Failed to save journal entry:'') (Reason (str ''disk full''))]) = 1"
proof -
  let ?es = "[UpdateJournalEntry \<lparr>arg_id = Some (IdNum 1), arg_date = [], arg_title = [],
                                  arg_body = [], arg_tags = []\<rparr>,
              ConsoleError (str ''Failed to save journal entry:'') (Reason (str ''disk full''))]"
  have a: "onSave (\<lambda>t. []) (Rejects (Reason (str ''disk full''))) (initial 0 (Some (IdNum 1))) =
     (initial 0 (Some (IdNum 1)), ?es, None)"
    by (simp add: onSave_def onSave_try_def seq_def emit_def await_def await_call_def
        save_args_def date_toISOString_def initial_def)
  have b: "\<exists>e \<in> set ?es. isWrite e" by simp
  show ?thesis using a b onSave_collaborator_failure [OF a b] by simp
qed

section \<open>Loading an entry\<close>

text \<open>
  C5. The screen is meant to stay in its loading state until the stored record has
  been fetched and mapped into the draft. With the identifier \<open>1\<close>, the effect issues the
  read and clears \<open>loading\<close> at once: the state it leaves is ready with the blank
  defaults, and the stored fields arrive only when \<open>loadEntry\<close> is resumed.
\<close>

theorem load_effect_ready_before_read:
  \<open>load_effect (initial 0 (Some (IdNum 1))) =
     ((initial 0 (Some (IdNum 1)))\<lparr>loading := False\<rparr>, [ReadJournalEntry (IdNum 1)]) \<and>
   loadEntry_resume (\<lambda>s. ValidDate 86400000)
       (Some \<lparr>e_date = str ''1970-01-02T00:00:00.000Z'', e_title = str ''T'', e_body = str ''B'',
              e_tags = str ''["a"]''\<rparr>)
       ((initial 0 (Some (IdNum 1)))\<lparr>loading := False\<rparr>) =
     Some ((initial 0 (Some (IdNum 1)))\<lparr>date := ValidDate 86400000, title := str ''T'', body := str ''B'',
             tags := [str ''a''], loading := False\<rparr>)\<close>
  by (simp add: load_effect_def loadEntry_start_def loadEntry_resume_def initial_def
      JSON_parse_def isJSONWhiteSpace_def parseElements.simps str_def)

text \<open>
  C7. When the stored tags are the JSON text of an array of strings, resuming
  \<open>loadEntry\<close> with the record sets the draft's tags to exactly that array, element by
  element in the same order (and the date, title and body to the stored ones).
\<close>

theorem loadEntry_resume_stored_tags:
  "e_tags e = JSON_stringify ts \<Longrightarrow>
   loadEntry_resume newDate (Some e) st =
     Some (st\<lparr>date := newDate (e_date e), title := e_title e, body := e_body e, tags := ts\<rparr>)"
  by (simp add: loadEntry_resume_def JSON_parse_stringify)

theorem loadEntry_resume_stored_tags_witness:
  \<open>e_tags \<lparr>e_date = str ''1970-01-02T00:00:00.000Z'', e_title = str ''T'', e_body = str ''B'',
           e_tags = str ''["a","b"]''\<rparr> = JSON_stringify [str ''a'', str ''b''] \<and>
   loadEntry_resume (\<lambda>s. ValidDate 86400000)
       (Some \<lparr>e_date = str ''1970-01-02T00:00:00.000Z'', e_title = str ''T'', e_body = str ''B'',
              e_tags = str ''["a","b"]''\<rparr>)
       (initial 0 (Some (IdNum 1))) =
     Some ((initial 0 (Some (IdNum 1)))\<lparr>date := ValidDate 86400000, title := str ''T'', body := str ''B'',
             tags := [str ''a'', str ''b'']\<rparr>)\<close>
proof -
  let ?e = \<open>\<lparr>e_date = str ''1970-01-02T00:00:00.000Z'', e_title = str ''T'', e_body = str ''B'',
           e_tags = str ''["a","b"]''\<rparr>\<close>
  have a: "e_tags ?e = JSON_stringify [str ''a'', str ''b'']"
    by (simp add: JSON_stringify_a_b)
  show ?thesis
    using a loadEntry_resume_stored_tags [OF a, of "\<lambda>s. ValidDate 86400000" "initial 0 (Some (IdNum 1))"]
    by simp
qed

text \<open>
  C10. When the read resolves with no record, resuming \<open>loadEntry\<close> changes nothing.
  Coming from the first render, the screen is then ready with the blank defaults:
  the current date, an empty title, an empty body and no tags. No alert or log entry is
  produced: \<open>loadEntry_resume\<close> has no effect other than on the state.
\<close>

theorem loadEntry_absent_record:
  "loadEntry_resume newDate None st = Some st \<and>
   loadEntry_resume newDate None (fst (load_effect (initial now i))) =
     Some \<lparr>date = ValidDate now, title = [], body = [], tags = [], tagModalVisible = False,
           showDatePicker = False, entryId = i, loading = False, isKeyboardOpen = False\<rparr>"
  by (cases i) (auto simp: loadEntry_resume_def load_effect_def loadEntry_start_def initial_def)

end
